theory Spec2Isabelle
  imports Complex_Main
begin

section \<open>Python values used by the dialect\<close>

text \<open>
  Identifiers, type names and SQL fragments are Python \<open>str\<close> values; they are modelled
  as HOL strings, one character per code point below 256 (Latin-1). On these,
  \<open>lower\<close> is \<open>str.lower\<close> and the whitespace test is that of \<open>str.strip\<close>: the capitals are
  \<open>A\<close> to \<open>Z\<close> and the code points \<open>0xC0\<close> to \<open>0xDE\<close> without the multiplication sign
  \<open>0xD7\<close>, each 32 below its small letter. \<open>upper\<close> is \<open>str.upper\<close> wherever the result is
  again such a string; the three small letters whose upper-casing is not (\<open>0xB5\<close>, \<open>0xDF\<close>
  and \<open>0xFF\<close>) are left as they are.
\<close>

datatype error =
    CompileError string
  | NotImplementedError string
  | AssertionError string
  | TypeError
  | IndexError

definition ascii_uppercase :: string where
  "ascii_uppercase = ''ABCDEFGHIJKLMNOPQRSTUVWXYZ''"

definition ascii_lowercase :: string where
  "ascii_lowercase = ''abcdefghijklmnopqrstuvwxyz''"

definition digits :: string where
  "digits = ''0123456789''"

definition latin1_uppercase :: string where
  "latin1_uppercase =
     [CHR 0xC0, CHR 0xC1, CHR 0xC2, CHR 0xC3, CHR 0xC4, CHR 0xC5, CHR 0xC6, CHR 0xC7,
      CHR 0xC8, CHR 0xC9, CHR 0xCA, CHR 0xCB, CHR 0xCC, CHR 0xCD, CHR 0xCE, CHR 0xCF,
      CHR 0xD0, CHR 0xD1, CHR 0xD2, CHR 0xD3, CHR 0xD4, CHR 0xD5, CHR 0xD6,
      CHR 0xD8, CHR 0xD9, CHR 0xDA, CHR 0xDB, CHR 0xDC, CHR 0xDD, CHR 0xDE]"

definition latin1_lowercase :: string where
  "latin1_lowercase =
     [CHR 0xE0, CHR 0xE1, CHR 0xE2, CHR 0xE3, CHR 0xE4, CHR 0xE5, CHR 0xE6, CHR 0xE7,
      CHR 0xE8, CHR 0xE9, CHR 0xEA, CHR 0xEB, CHR 0xEC, CHR 0xED, CHR 0xEE, CHR 0xEF,
      CHR 0xF0, CHR 0xF1, CHR 0xF2, CHR 0xF3, CHR 0xF4, CHR 0xF5, CHR 0xF6,
      CHR 0xF8, CHR 0xF9, CHR 0xFA, CHR 0xFB, CHR 0xFC, CHR 0xFD, CHR 0xFE]"

definition lower_char :: "char \<Rightarrow> char" where
  "lower_char c =
     (case map_of (zip (ascii_uppercase @ latin1_uppercase)
                       (ascii_lowercase @ latin1_lowercase)) c of
        Some l \<Rightarrow> l
      | None \<Rightarrow> c)"

definition upper_char :: "char \<Rightarrow> char" where
  "upper_char c =
     (case map_of (zip (ascii_lowercase @ latin1_lowercase)
                       (ascii_uppercase @ latin1_uppercase)) c of
        Some u \<Rightarrow> u
      | None \<Rightarrow> c)"

definition lower :: "string \<Rightarrow> string" where
  "lower s = map lower_char s"

definition upper :: "string \<Rightarrow> string" where
  "upper s = map upper_char s"

definition whitespace :: string where
  "whitespace =
     [CHR 0x09, CHR 0x0A, CHR 0x0B, CHR 0x0C, CHR 0x0D, CHR 0x1C, CHR 0x1D, CHR 0x1E,
      CHR 0x1F, CHR 0x20, CHR 0x85, CHR 0xA0]"

definition isspace :: "char \<Rightarrow> bool" where
  "isspace c = (c \<in> set whitespace)"

definition lstrip :: "string \<Rightarrow> string" where
  "lstrip s = dropWhile isspace s"

definition rstrip :: "string \<Rightarrow> string" where
  "rstrip s = rev (dropWhile isspace (rev s))"

definition strip :: "string \<Rightarrow> string" where
  "strip s = rstrip (lstrip s)"



section \<open>Identifier and reserved-word policy\<close>

text \<open>The reserved words installed by \<open>FBIdentifierPreparer\<close> (\<open>RESERVED_WORDS\<close>).\<close>

definition RESERVED_WORDS :: "string list" where
  "RESERVED_WORDS =
    [''add'', ''admin'', ''all'',
     ''alter'', ''and'', ''any'',
     ''as'', ''at'', ''avg'',
     ''begin'', ''between'', ''bigint'',
     ''binary'', ''bit_length'', ''blob'',
     ''boolean'', ''both'', ''by'',
     ''case'', ''cast'', ''char'',
     ''character'', ''character_length'', ''char_length'',
     ''check'', ''close'', ''collate'',
     ''column'', ''comment'', ''commit'',
     ''connect'', ''constraint'', ''corr'',
     ''count'', ''covar_pop'', ''covar_samp'',
     ''create'', ''cross'', ''current'',
     ''current_connection'', ''current_date'', ''current_role'',
     ''current_time'', ''current_timestamp'', ''current_transaction'',
     ''current_user'', ''cursor'', ''date'',
     ''day'', ''dec'', ''decfloat'',
     ''decimal'', ''declare'', ''default'',
     ''delete'', ''deleting'', ''deterministic'',
     ''disconnect'', ''distinct'', ''double'',
     ''drop'', ''else'', ''end'',
     ''escape'', ''execute'', ''exists'',
     ''external'', ''extract'', ''false'',
     ''fetch'', ''filter'', ''float'',
     ''for'', ''foreign'', ''from'',
     ''full'', ''function'', ''gdscode'',
     ''global'', ''grant'', ''group'',
     ''having'', ''hour'', ''in'',
     ''index'', ''inner'', ''insensitive'',
     ''insert'', ''inserting'', ''int'',
     ''int128'', ''integer'', ''into'',
     ''is'', ''join'', ''lateral'',
     ''leading'', ''left'', ''like'',
     ''local'', ''localtime'', ''localtimestamp'',
     ''long'', ''lower'', ''max'',
     ''merge'', ''min'', ''minute'',
     ''month'', ''national'', ''natural'',
     ''nchar'', ''no'', ''not'',
     ''null'', ''numeric'', ''octet_length'',
     ''of'', ''offset'', ''on'',
     ''only'', ''open'', ''or'',
     ''order'', ''outer'', ''over'',
     ''parameter'', ''plan'', ''position'',
     ''post_event'', ''precision'', ''primary'',
     ''procedure'', ''publication'', ''rdb$db_key'',
     ''rdb$error'', ''rdb$get_context'', ''rdb$get_transaction_cn'',
     ''rdb$record_version'', ''rdb$role_in_use'', ''rdb$set_context'',
     ''rdb$system_privilege'', ''real'', ''record_version'',
     ''recreate'', ''recursive'', ''references'',
     ''regr_avgx'', ''regr_avgy'', ''regr_count'',
     ''regr_intercept'', ''regr_r2'', ''regr_slope'',
     ''regr_sxx'', ''regr_sxy'', ''regr_syy'',
     ''release'', ''resetting'', ''return'',
     ''returning_values'', ''returns'', ''revoke'',
     ''right'', ''rollback'', ''row'',
     ''rows'', ''row_count'', ''savepoint'',
     ''scroll'', ''second'', ''select'',
     ''sensitive'', ''set'', ''similar'',
     ''smallint'', ''some'', ''sqlcode'',
     ''sqlstate'', ''start'', ''stddev_pop'',
     ''stddev_samp'', ''sum'', ''table'',
     ''then'', ''time'', ''timestamp'',
     ''timezone_hour'', ''timezone_minute'', ''to'',
     ''trailing'', ''trigger'', ''trim'',
     ''true'', ''unbounded'', ''union'',
     ''unique'', ''unknown'', ''update'',
     ''updating'', ''upper'', ''user'',
     ''using'', ''value'', ''values'',
     ''varbinary'', ''varchar'', ''variable'',
     ''varying'', ''var_pop'', ''var_samp'',
     ''view'', ''when'', ''where'',
     ''while'', ''window'', ''with'',
     ''without'', ''year'']"

definition reserved_words :: "string set" where
  "reserved_words = set RESERVED_WORDS"

text \<open>
  Modelled from the spec: the framework constant \<open>compiler.ILLEGAL_INITIAL_CHARACTERS\<close>
  is not under src/. Section 4.2 calls it the generic illegal set of leading characters;
  in the framework it is the ten digits and the dollar sign.
\<close>

definition ILLEGAL_INITIAL_CHARACTERS :: "char set" where
  "ILLEGAL_INITIAL_CHARACTERS = set digits \<union> {CHR ''$''}"

text \<open>\<open>FBIdentifierPreparer.illegal_initial_characters\<close>: the generic set and the underscore.\<close>

definition illegal_initial_characters :: "char set" where
  "illegal_initial_characters = ILLEGAL_INITIAL_CHARACTERS \<union> set ''_''"

text \<open>
  Modelled from the spec: \<open>IdentifierPreparer.legal_characters\<close> and
  \<open>IdentifierPreparer._requires_quotes\<close>, which \<open>FBIdentifierPreparer\<close> inherits, are
  not under src/. Section 4.2 gives the rule: a name requires quoting when it matches a
  reserved word case-insensitively, begins with an illegal leading character, or is not in
  the case the unquoted form has. The inherited method takes the name in its normalized
  (lower-case) form, which is how Section 8 applies it (to \<open>normalize(x)\<close>): the case test
  is that the name differs from its own lower-casing, and a name with a character outside
  letters, digits, underscore and dollar requires quoting as well (the pattern is
  \<open>^[A-Z0-9_$]+$\<close>, case-insensitive, whose final \<open>$\<close> also accepts one trailing newline).
  Reading the first character of an empty name raises \<open>IndexError\<close>.
\<close>

definition legal_char :: "char \<Rightarrow> bool" where
  "legal_char c =
     (c \<in> set ascii_uppercase \<or> c \<in> set ascii_lowercase \<or> c \<in> set digits \<or> c \<in> set ''_$'')"

definition legal_characters_match :: "string \<Rightarrow> bool" where
  "legal_characters_match v =
     (let body = (if v \<noteq> [] \<and> last v = CHR 0x0A then butlast v else v)
      in body \<noteq> [] \<and> list_all legal_char body)"

definition requires_quotes :: "string \<Rightarrow> error + bool" where
  "requires_quotes v =
     (let lc_value = lower v in
      if lc_value \<in> reserved_words then Inr True
      else (case v of
              [] \<Rightarrow> Inl IndexError
            | c # _ \<Rightarrow>
                Inr (c \<in> illegal_initial_characters
                     \<or> \<not> legal_characters_match v
                     \<or> lc_value \<noteq> v)))"

text \<open>
  Modelled from the spec: \<open>DefaultDialect.normalize_name\<close> and
  \<open>DefaultDialect.denormalize_name\<close>, which \<open>FBDialect\<close> inherits
  (\<open>requires_name_normalize = True\<close>), are not under src/. Section 4.2: normalization
  lower-cases an all-uppercase catalog name (the natural, unquoted form) and leaves
  mixed- and lower-case names untouched; denormalization folds a name that needs no
  quoting back to the catalog's upper case. A name without cased characters is returned
  unchanged by both, and an upper-case name whose lower-casing would need quoting is
  kept as it is. \<open>normalize_name\<close> gives the text of the result; the framework returns
  an all-lower-case catalog name as a \<open>quoted_name\<close> with \<open>quote=True\<close>, and
  \<open>normalize_quote\<close> says when. On such a name \<open>lower()\<close> and \<open>upper()\<close> return the name
  itself, so \<open>denormalize_name\<close> hands it back unchanged: \<open>denormalize_py_name\<close>.
\<close>

definition normalize_name :: "string \<Rightarrow> error + string" where
  "normalize_name name =
     (let name_lower = lower name; name_upper = upper name in
      if name_upper = name_lower then Inr name
      else if name_upper = name then
        (case requires_quotes name_lower of
           Inl e \<Rightarrow> Inl e
         | Inr rq \<Rightarrow> if \<not> rq then Inr name_lower else Inr name)
      else Inr name)"

definition denormalize_name :: "string \<Rightarrow> error + string" where
  "denormalize_name name =
     (let name_lower = lower name; name_upper = upper name in
      if name_upper = name_lower then Inr name
      else if name_lower = name then
        (case requires_quotes name_lower of
           Inl e \<Rightarrow> Inl e
         | Inr rq \<Rightarrow> if \<not> rq then Inr name_upper else Inr name)
      else Inr name)"

definition normalize_quote :: "string \<Rightarrow> bool" where
  "normalize_quote name =
     (let name_lower = lower name; name_upper = upper name in
      if name_upper = name_lower then False
      else if name_upper = name then False
      else name_lower = name)"

datatype py_name = Plain string | Quoted string

fun denormalize_py_name :: "py_name \<Rightarrow> error + string" where
  "denormalize_py_name (Plain name) = denormalize_name name"
| "denormalize_py_name (Quoted name) = Inr name"

section \<open>Type mapping table and dialect state\<close>

text \<open>
  The type classes named by \<open>ischema_names\<close>. \<open>FB_VARCHAR\<close> and \<open>FB_CHAR\<close> are the
  dialect's own string classes \<open>VARCHAR\<close> and \<open>CHAR\<close>; the others are imported from the
  framework's type module.
\<close>

datatype sqlclass =
    SMALLINT | INTEGER | FLOAT | DATE | TIME | TEXT | BIGINT | TIMESTAMP | FB_VARCHAR
  | FB_CHAR | BLOB

text \<open>
  A type instance as column reflection builds it: the framework's \<open>NULLTYPE\<close>,
  \<open>NUMERIC(precision=p, scale=s)\<close>, or a class called with positional arguments.
\<close>

datatype sqltype =
    NULLTYPE
  | NUMERIC "int option" int
  | New sqlclass "int option list"

definition ischema_names :: "string \<rightharpoonup> sqlclass" where
  "ischema_names = map_of
     [(''SHORT'', SMALLINT),
      (''LONG'', INTEGER),
      (''QUAD'', FLOAT),
      (''FLOAT'', FLOAT),
      (''DATE'', DATE),
      (''TIME'', TIME),
      (''TEXT'', TEXT),
      (''INT64'', BIGINT),
      (''DOUBLE'', FLOAT),
      (''TIMESTAMP'', TIMESTAMP),
      (''VARYING'', FB_VARCHAR),
      (''CSTRING'', FB_CHAR),
      (''BLOB'', BLOB)]"

text \<open>
  \<open>issubclass(coltype, Integer)\<close>: in the framework's class hierarchy \<open>SMALLINT\<close>,
  \<open>INTEGER\<close> and \<open>BIGINT\<close> derive from \<open>Integer\<close>, and no other class of the table does.
\<close>

fun issubclass_Integer :: "sqlclass \<Rightarrow> bool" where
  "issubclass_Integer SMALLINT = True"
| "issubclass_Integer INTEGER = True"
| "issubclass_Integer BIGINT = True"
| "issubclass_Integer _ = False"

text \<open>\<open>colspecs\<close>: the implementation chosen for a generic type, by class name.\<close>

definition colspecs :: "string \<rightharpoonup> string" where
  "colspecs = [''DateTime'' \<mapsto> ''_FBDateTime'']"

text \<open>
  An element of the \<open>server_version_info\<close> tuple (numbers and a product name), and the
  connection data that initialization reads: the version tuple the base class stores from
  the connection, and the driver's \<open>engine_version\<close>, a Python float, taken as the rational
  it denotes.
\<close>

datatype velem = VInt int | VStr string

text \<open>
  The catalog queries a connection answers. Each carries its bind parameters; the rows
  returned are those the engine's catalog holds for them.
\<close>

datatype query =
    Q_has_table string
  | Q_pk_constraint string string
  | Q_columns string
  | Q_column_sequence string string

record row =
  fname :: string
  null_flag :: "int option"
  ftype :: string
  stype :: "int option"
  flen :: "int option"
  fprec :: "int option"
  fscale :: "int option"
  fdefault :: "string option"
  computed_source :: "string option"

record connection =
  server_version_info :: "velem list"
  engine_version :: rat
  rdb_relations :: "string list"
  rdb_key_fields :: "string \<Rightarrow> string \<Rightarrow> string list"
  rdb_relation_fields :: "string \<Rightarrow> row list"
  rdb_generators_of :: "string \<Rightarrow> string \<Rightarrow> string list"
  issued :: "query list"
  warnings :: "string list"

text \<open>
  The attributes of \<open>FBDialect\<close> the operations below read. \<open>implicit_returning\<close> is the
  entry of the instance dictionary, absent until set; \<open>max_identifier_length\<close> starts at
  the base class's value.
\<close>

record FBDialect =
  version_two :: bool
  self_ischema_names :: "string \<rightharpoonup> sqlclass"
  self_colspecs :: "string \<rightharpoonup> string"
  implicit_returning :: "bool option"
  max_identifier_length :: nat

definition FBDialect_class :: FBDialect where
  "FBDialect_class =
     \<lparr>version_two = True,
      self_ischema_names = ischema_names,
      self_colspecs = colspecs,
      implicit_returning = None,
      max_identifier_length = 9999\<rparr>"

text \<open>
  \<open>server_version_info >= (n,)\<close>: Python compares tuples at the first position where they
  differ. An empty tuple is smaller; a leading number decides (an equal one leaves the
  longer tuple the greater); a leading string cannot be ordered against a number.
\<close>

fun version_ge :: "velem list \<Rightarrow> int \<Rightarrow> error + bool" where
  "version_ge [] n = Inr False"
| "version_ge (VInt m # _) n = Inr (n \<le> m)"
| "version_ge (VStr _ # _) n = Inl TypeError"

definition detect_version_two :: "velem list \<Rightarrow> error + bool" where
  "detect_version_two info =
     (case (if VStr ''firebird'' \<in> set info then version_ge info 2 else Inr False) of
        Inl e \<Rightarrow> Inl e
      | Inr True \<Rightarrow> Inr True
      | Inr False \<Rightarrow>
          (if VStr ''interbase'' \<in> set info then version_ge info 6 else Inr False))"

definition initialize :: "FBDialect \<Rightarrow> connection \<Rightarrow> error + FBDialect" where
  "initialize self conn =
     (case detect_version_two (server_version_info conn) of
        Inl e \<Rightarrow> Inl e
      | Inr v2 \<Rightarrow>
          (let s1 = self\<lparr>version_two := v2\<rparr>;
               s2 = (if \<not> v2
                     then s1\<lparr>self_ischema_names := ischema_names(''TIMESTAMP'' \<mapsto> DATE),
                             self_colspecs := [''DateTime'' \<mapsto> ''DATE'']\<rparr>
                     else s1);
               s3 = s2\<lparr>implicit_returning :=
                         Some (v2 \<and> (case implicit_returning self of
                                        None \<Rightarrow> True | Some b \<Rightarrow> b))\<rparr>
           in Inr (s3\<lparr>max_identifier_length :=
                         (if engine_version conn < 4 then 31 else 252)\<rparr>)))"

section \<open>Catalog reflection\<close>

definition execute :: "connection \<Rightarrow> query \<Rightarrow> connection" where
  "execute conn q = conn\<lparr>issued := issued conn @ [q]\<rparr>"

definition has_table :: "FBDialect \<Rightarrow> connection \<Rightarrow> string \<Rightarrow> error + bool \<times> connection" where
  "has_table self conn table_name =
     (if length table_name > max_identifier_length self then Inr (False, conn)
      else (case denormalize_name table_name of
              Inl e \<Rightarrow> Inl e
            | Inr tbl_name \<Rightarrow>
                (let c = filter (\<lambda>r. r = tbl_name) (rdb_relations conn)
                 in Inr (c \<noteq> [], execute conn (Q_has_table tbl_name)))))"

text \<open>\<open>[normalize_name(r) for r in rows]\<close>, stopping at the first error.\<close>

fun normalize_names :: "string list \<Rightarrow> error + string list" where
  "normalize_names [] = Inr []"
| "normalize_names (r # rs) =
     (case normalize_name r of
        Inl e \<Rightarrow> Inl e
      | Inr n \<Rightarrow> (case normalize_names rs of Inl e \<Rightarrow> Inl e | Inr ns \<Rightarrow> Inr (n # ns)))"

definition get_pk_constraint ::
  "connection \<Rightarrow> string \<Rightarrow> error + string list \<times> connection" where
  "get_pk_constraint conn table_name =
     (case denormalize_name table_name of
        Inl e \<Rightarrow> Inl e
      | Inr tablename \<Rightarrow>
          (let c = rdb_key_fields conn ''PRIMARY KEY'' tablename;
               conn' = execute conn (Q_pk_constraint ''PRIMARY KEY'' tablename)
           in case normalize_names c of
                Inl e \<Rightarrow> Inl e
              | Inr pkfields \<Rightarrow> Inr (pkfields, conn')))"

definition get_column_sequence ::
  "connection \<Rightarrow> string \<Rightarrow> py_name \<Rightarrow> error + string option \<times> connection" where
  "get_column_sequence conn table_name column_name =
     (case denormalize_name table_name of
        Inl e \<Rightarrow> Inl e
      | Inr tablename \<Rightarrow>
          (case denormalize_py_name column_name of
             Inl e \<Rightarrow> Inl e
           | Inr colname \<Rightarrow>
               (let conn' = execute conn (Q_column_sequence tablename colname)
                in case rdb_generators_of conn tablename colname of
                     [] \<Rightarrow> Inr (None, conn')
                   | fgenerator # _ \<Rightarrow>
                       (case normalize_name fgenerator of
                          Inl e \<Rightarrow> Inl e
                        | Inr n \<Rightarrow> Inr (Some n, conn')))))"

text \<open>The column descriptor \<open>col_d\<close>; \<open>quote\<close>, \<open>computed\<close> and \<open>sequence\<close> are optional keys.\<close>

record col_d =
  d_name :: string
  d_type :: sqltype
  d_nullable :: bool
  d_default :: "string option"
  d_autoincrement :: string
  d_quote :: "bool option"
  d_computed :: "string option"
  d_sequence :: "string option"

text \<open>
  The data type of a row (\<open>get_columns\<close>, the block under "get the data type"): the
  instance, and the warning when the type name is not in the table.
\<close>

definition coltype_of ::
  "FBDialect \<Rightarrow> string \<Rightarrow> row \<Rightarrow> error + sqltype \<times> string list" where
  "coltype_of self name r =
     (let colspec = rstrip (ftype r) in
      case self_ischema_names self colspec of
        None \<Rightarrow>
          Inr (NULLTYPE,
               [''Did not recognize type '' @ [CHR 0x27] @ colspec @ [CHR 0x27]
                @ '' of column '' @ [CHR 0x27] @ name @ [CHR 0x27]])
      | Some coltype \<Rightarrow>
          if issubclass_Integer coltype \<and> fprec r \<noteq> Some 0 then
            (case fscale r of
               None \<Rightarrow> Inl TypeError
             | Some s \<Rightarrow> Inr (NUMERIC (fprec r) (s * - 1), []))
          else if colspec \<in> set [''VARYING'', ''CSTRING''] then Inr (New coltype [flen r], [])
          else if colspec = ''TEXT'' then Inr (New TEXT [flen r], [])
          else if colspec = ''BLOB'' then
            (if stype r = Some 1 then Inr (New TEXT [], []) else Inr (New BLOB [], []))
          else Inr (New coltype [], []))"

text \<open>The default value of a row (\<open>get_columns\<close>, the block under "does it have a default value?").\<close>

definition defvalue_of :: "row \<Rightarrow> error + string option" where
  "defvalue_of r =
     (case fdefault r of
        None \<Rightarrow> Inr None
      | Some src \<Rightarrow>
          (let defexpr = lstrip src in
           if upper (rstrip (take 8 defexpr)) \<noteq> ''DEFAULT''
           then Inl (AssertionError (''Unrecognized default value: '' @ defexpr))
           else (let defvalue = strip (drop 8 defexpr)
                 in if defvalue = ''NULL'' then Inr None else Inr (Some defvalue))))"

text \<open>One iteration of the loop of \<open>get_columns\<close>: the descriptor appended for a row.\<close>

definition column_of_row ::
  "FBDialect \<Rightarrow> string list \<Rightarrow> string \<Rightarrow> connection \<Rightarrow> row \<Rightarrow> error + col_d \<times> connection" where
  "column_of_row self pkey_cols tablename conn r =
     (case normalize_name (fname r) of
        Inl e \<Rightarrow> Inl e
      | Inr name \<Rightarrow>
     (let orig_colname = fname r in
      case coltype_of self name r of
        Inl e \<Rightarrow> Inl e
      | Inr (coltype, ws) \<Rightarrow>
     (let conn1 = conn\<lparr>warnings := warnings conn @ ws\<rparr> in
      case defvalue_of r of
        Inl e \<Rightarrow> Inl e
      | Inr defvalue \<Rightarrow>
     (let col = \<lparr>d_name = name,
                 d_type = coltype,
                 d_nullable = (case null_flag r of None \<Rightarrow> True | Some f \<Rightarrow> f = 0),
                 d_default = defvalue,
                 d_autoincrement = ''auto'',
                 d_quote = (if lower orig_colname = orig_colname then Some True else None),
                 d_computed = computed_source r,
                 d_sequence = None\<rparr>
      in if length pkey_cols = 1 \<and> name = pkey_cols ! 0 then
           (case get_column_sequence conn1 tablename
                   (if normalize_quote orig_colname then Quoted name else Plain name) of
              Inl e \<Rightarrow> Inl e
            | Inr (seq_d, conn2) \<Rightarrow> Inr (col\<lparr>d_sequence := seq_d\<rparr>, conn2))
         else Inr (col, conn1)))))"

fun columns_of_rows ::
  "FBDialect \<Rightarrow> string list \<Rightarrow> string \<Rightarrow> connection \<Rightarrow> row list
     \<Rightarrow> error + col_d list \<times> connection" where
  "columns_of_rows self pkey_cols tablename conn [] = Inr ([], conn)"
| "columns_of_rows self pkey_cols tablename conn (r # rs) =
     (case column_of_row self pkey_cols tablename conn r of
        Inl e \<Rightarrow> Inl e
      | Inr (col, conn1) \<Rightarrow>
          (case columns_of_rows self pkey_cols tablename conn1 rs of
             Inl e \<Rightarrow> Inl e
           | Inr (cols, conn2) \<Rightarrow> Inr (col # cols, conn2)))"

definition get_columns ::
  "FBDialect \<Rightarrow> connection \<Rightarrow> string \<Rightarrow> error + col_d list \<times> connection" where
  "get_columns self conn table_name =
     (case get_pk_constraint conn table_name of
        Inl e \<Rightarrow> Inl e
      | Inr (pkey_cols, conn1) \<Rightarrow>
          (case denormalize_name table_name of
             Inl e \<Rightarrow> Inl e
           | Inr tablename \<Rightarrow>
               columns_of_rows self pkey_cols tablename
                 (execute conn1 (Q_columns tablename)) (rdb_relation_fields conn1 tablename)))"

section \<open>SQL rendering overrides\<close>

text \<open>
  The schema objects the compilers visit, with the attributes the overrides read.
  Expressions (\<open>sqltext\<close>, limit and offset clauses, the aliased element) are carried as
  opaque strings and rendered by the framework's \<open>process\<close>.
\<close>

record Sequence =
  seq_name :: string
  start :: "int option"
  increment :: "int option"

record Computed =
  sqltext :: string
  persisted :: "bool option"

text \<open>
  A column type as the type compiler dispatches on it: the visit methods the dialect
  overrides, and \<open>T_generic\<close> for every type left to the framework's compiler.
\<close>

datatype type_expr =
    T_boolean
  | T_datetime
  | T_TEXT
  | T_BLOB
  | T_CHAR "int option" "string option"
  | T_VARCHAR "int option" "string option"
  | T_generic string

datatype autoinc = AI_auto | AI_True | AI_False | AI_ignore_fk

datatype column_default = D_None | D_Sequence Sequence | D_scalar string

record Column =
  column_name :: string
  column_type :: type_expr
  computed :: "Computed option"
  is_table_autoincrement_column :: bool
  autoincrement :: autoinc
  identity_start :: int
  default_of :: column_default
  nullable :: "bool option"
  primary_key :: bool

record Alias =
  alias_name :: string
  name_is_truncated_label :: bool
  element :: string

record Select =
  distinct :: bool
  limit_clause :: "string option"
  offset_clause :: "string option"

text \<open>
  The framework's side of the compilers: the identifier preparer's formatting, the base
  classes' visit methods the overrides call through \<open>super\<close>, the statement compiler's
  \<open>process\<close> and the DDL compiler's \<open>sql_compiler.process\<close> (with \<open>include_table=False,
  literal_binds=True\<close>). None of it is under src/; the overrides are stated for every such
  host.
\<close>

record host =
  format_column :: "Column \<Rightarrow> string"
  format_sequence :: "Sequence \<Rightarrow> string"
  format_alias :: "Alias \<Rightarrow> string \<Rightarrow> string"
  truncated_identifier :: "string \<Rightarrow> string \<Rightarrow> string"
  process :: "string \<Rightarrow> string"
  sql_compiler_process :: "string \<Rightarrow> string"
  process_alias_element :: "Alias \<Rightarrow> bool \<Rightarrow> string"
  str_of_type :: "type_expr \<Rightarrow> string"
  get_column_default_string :: "Column \<Rightarrow> string option"
  super_visit_alias :: "Alias \<Rightarrow> bool \<Rightarrow> string"
  super_visit_CHAR :: "type_expr \<Rightarrow> string"
  super_visit_VARCHAR :: "type_expr \<Rightarrow> string"
  visit_SMALLINT :: string
  visit_TIMESTAMP :: string
  visit_generic :: "type_expr \<Rightarrow> string"
  super_get_select_precolumns :: "Select \<Rightarrow> string"

subsection \<open>\<open>FBTypeCompiler\<close>\<close>

definition dialect_name :: string where
  "dialect_name = ''firebird''"

definition extend_string :: "string option \<Rightarrow> string \<Rightarrow> string" where
  "extend_string charset basic =
     (case charset of None \<Rightarrow> basic | Some cs \<Rightarrow> basic @ '' CHARACTER SET '' @ cs)"

definition visit_CHAR :: "host \<Rightarrow> int option \<Rightarrow> string option \<Rightarrow> string" where
  "visit_CHAR h len charset = extend_string charset (super_visit_CHAR h (T_CHAR len charset))"

definition visit_VARCHAR :: "host \<Rightarrow> int option \<Rightarrow> string option \<Rightarrow> error + string" where
  "visit_VARCHAR h len charset =
     (if len = None \<or> len = Some 0
      then Inl (CompileError (''VARCHAR requires a length on dialect '' @ dialect_name))
      else Inr (extend_string charset (super_visit_VARCHAR h (T_VARCHAR len charset))))"

fun type_compiler_process :: "host \<Rightarrow> type_expr \<Rightarrow> error + string" where
  "type_compiler_process h T_boolean = Inr (visit_SMALLINT h)"
| "type_compiler_process h T_datetime = Inr (visit_TIMESTAMP h)"
| "type_compiler_process h T_TEXT = Inr ''BLOB SUB_TYPE 1''"
| "type_compiler_process h T_BLOB = Inr ''BLOB SUB_TYPE 0''"
| "type_compiler_process h (T_CHAR len charset) = Inr (visit_CHAR h len charset)"
| "type_compiler_process h (T_VARCHAR len charset) = visit_VARCHAR h len charset"
| "type_compiler_process h (T_generic v) = Inr (visit_generic h (T_generic v))"

subsection \<open>\<open>FBCompiler\<close>\<close>

definition visit_alias :: "host \<Rightarrow> FBDialect \<Rightarrow> Alias \<Rightarrow> bool \<Rightarrow> string" where
  "visit_alias h dialect alias asfrom =
     (if version_two dialect then super_visit_alias h alias asfrom
      else if asfrom then
        (let t = (if name_is_truncated_label alias
                  then truncated_identifier h ''alias'' (alias_name alias) else []);
             alias_name' = (if t \<noteq> [] then t else alias_name alias)
         in process_alias_element h alias asfrom @ '' '' @ format_alias h alias alias_name')
      else process_alias_element h alias False)"

definition get_select_precolumns :: "host \<Rightarrow> Select \<Rightarrow> string" where
  "get_select_precolumns h select =
     (let result = super_get_select_precolumns h select;
          result = (case limit_clause select of
                      None \<Rightarrow> result
                    | Some l \<Rightarrow> result @ ''FIRST ('' @ process h l @ '') '');
          result = (case offset_clause select of
                      None \<Rightarrow> result
                    | Some off \<Rightarrow> result @ ''SKIP ('' @ process h off @ '') '')
      in result)"

definition limit_clause_text :: "host \<Rightarrow> Select \<Rightarrow> string" where
  "limit_clause_text h select = []"

subsection \<open>\<open>FBDDLCompiler\<close>\<close>

definition visit_create_sequence :: "host \<Rightarrow> FBDialect \<Rightarrow> Sequence \<Rightarrow> error + string" where
  "visit_create_sequence h dialect elem =
     (if start elem \<noteq> None
      then Inl (NotImplementedError ''Firebird SEQUENCE doesn't support START WITH'')
      else if increment elem \<noteq> None
      then Inl (NotImplementedError ''Firebird SEQUENCE doesn't support INCREMENT BY'')
      else if version_two dialect then Inr (''CREATE SEQUENCE '' @ format_sequence h elem)
      else Inr (''CREATE GENERATOR '' @ format_sequence h elem))"

definition visit_drop_sequence :: "host \<Rightarrow> FBDialect \<Rightarrow> Sequence \<Rightarrow> string" where
  "visit_drop_sequence h dialect elem =
     (if version_two dialect then ''DROP SEQUENCE '' @ format_sequence h elem
      else ''DROP GENERATOR '' @ format_sequence h elem)"

definition visit_computed_column :: "host \<Rightarrow> Computed \<Rightarrow> error + string" where
  "visit_computed_column h generated =
     (if persisted generated \<noteq> None
      then Inl (CompileError
             (''Firebird computed columns do not support a persistence ''
              @ ''method setting; set the 'persisted' flag to None for ''
              @ ''Firebird support.''))
      else Inr (''GENERATED ALWAYS AS ('' @ sql_compiler_process h (sqltext generated) @ '')''))"



section \<open>Example inputs\<close>

text \<open>A connection to a pre-2.0 server: version tuple \<open>(1, 5, 'firebird')\<close>, engine 1.5.\<close>

definition legacy_connection :: connection where
  "legacy_connection =
     \<lparr>server_version_info = [VInt 1, VInt 5, VStr ''firebird''],
      engine_version = 3 / 2,
      rdb_relations = [],
      rdb_key_fields = (\<lambda>_ _. []),
      rdb_relation_fields = (\<lambda>_. []),
      rdb_generators_of = (\<lambda>_ _. []),
      issued = [],
      warnings = []\<rparr>"

text \<open>
  A catalog with two tables. \<open>ORDERS\<close> has an integer primary key fed by a generator,
  a scaled \<open>SHORT\<close> (the catalog's form of \<open>NUMERIC(5, 2)\<close>), a mixed-case \<open>VARYING\<close>
  column and a lower-case text blob. \<open>ACCOUNTS\<close> has one column, whose default source
  has no blank after the keyword: \<open>DEFAULT-1\<close>.
\<close>

definition row_ID :: row where
  "row_ID =
     \<lparr>fname = ''ID'', null_flag = Some 1, ftype = ''LONG   '', stype = Some 0,
      flen = Some 4, fprec = Some 0, fscale = Some 0, fdefault = None,
      computed_source = None\<rparr>"

definition row_PRICE :: row where
  "row_PRICE =
     \<lparr>fname = ''PRICE'', null_flag = None, ftype = ''SHORT'', stype = Some 1,
      flen = Some 2, fprec = Some 5, fscale = Some (- 2), fdefault = Some ''DEFAULT 0'',
      computed_source = None\<rparr>"

definition row_MyCol :: row where
  "row_MyCol =
     \<lparr>fname = ''MyCol'', null_flag = None, ftype = ''VARYING'', stype = Some 0,
      flen = Some 20, fprec = None, fscale = Some 0, fdefault = Some ''  default   'n/a'  '',
      computed_source = None\<rparr>"

definition row_note :: row where
  "row_note =
     \<lparr>fname = ''note'', null_flag = None, ftype = ''BLOB'', stype = Some 1,
      flen = Some 8, fprec = None, fscale = Some 0, fdefault = Some ''DEFAULT NULL'',
      computed_source = None\<rparr>"

definition row_BALANCE :: row where
  "row_BALANCE =
     \<lparr>fname = ''BALANCE'', null_flag = None, ftype = ''INT64'', stype = Some 0,
      flen = Some 8, fprec = Some 0, fscale = Some 0, fdefault = Some ''DEFAULT-1'',
      computed_source = None\<rparr>"

definition example_connection :: connection where
  "example_connection =
     \<lparr>server_version_info = [VInt 3, VInt 0, VStr ''firebird''],
      engine_version = 3,
      rdb_relations = [''ORDERS'', ''ACCOUNTS''],
      rdb_key_fields =
        (\<lambda>ctype t. if ctype = ''PRIMARY KEY'' \<and> t = ''ORDERS'' then [''ID''] else []),
      rdb_relation_fields =
        (\<lambda>t. if t = ''ORDERS'' then [row_ID, row_PRICE, row_MyCol, row_note]
             else if t = ''ACCOUNTS'' then [row_BALANCE] else []),
      rdb_generators_of =
        (\<lambda>t c. if t = ''ORDERS'' \<and> c = ''ID'' then [''GEN_ORDERS_ID''] else []),
      issued = [],
      warnings = []\<rparr>"

text \<open>
  A host that renders names and expressions as they stand and types by their usual
  keywords, and schema objects for the rendering examples: a sequence with and without a
  start value, a primary-key column declared \<open>nullable=True\<close>, and a \<open>SELECT DISTINCT\<close>
  with \<open>LIMIT 10 OFFSET 5\<close>.
\<close>

definition plain_host :: host where
  "plain_host =
     \<lparr>format_column = column_name,
      format_sequence = seq_name,
      format_alias = (\<lambda>alias n. n),
      truncated_identifier = (\<lambda>kind n. n),
      process = (\<lambda>e. e),
      sql_compiler_process = (\<lambda>e. e),
      process_alias_element = (\<lambda>alias asfrom. element alias),
      str_of_type = (\<lambda>t. ''INTEGER''),
      get_column_default_string = (\<lambda>column. None),
      super_visit_alias = (\<lambda>alias asfrom. element alias @ '' AS '' @ alias_name alias),
      super_visit_CHAR = (\<lambda>t. ''CHAR''),
      super_visit_VARCHAR = (\<lambda>t. ''VARCHAR''),
      visit_SMALLINT = ''SMALLINT'',
      visit_TIMESTAMP = ''TIMESTAMP'',
      visit_generic = (\<lambda>t. case t of T_generic v \<Rightarrow> v | _ \<Rightarrow> []),
      super_get_select_precolumns = (\<lambda>select. if distinct select then ''DISTINCT '' else [])\<rparr>"

definition seq_plain :: Sequence where
  "seq_plain = \<lparr>seq_name = ''gen_orders_id'', start = None, increment = None\<rparr>"

definition seq_start :: Sequence where
  "seq_start = \<lparr>seq_name = ''gen_orders_id'', start = Some 1, increment = None\<rparr>"

definition computed_stored :: Computed where
  "computed_stored = \<lparr>sqltext = ''price * 2'', persisted = Some True\<rparr>"


definition select_distinct_page :: Select where
  "select_distinct_page =
     \<lparr>distinct = True, limit_clause = Some ''10'', offset_clause = Some ''5''\<rparr>"

definition alias_o :: Alias where
  "alias_o = \<lparr>alias_name = ''o'', name_is_truncated_label = False, element = ''orders''\<rparr>"

section \<open>Properties\<close>

subsection \<open>Capability negotiation and the legacy type map\<close>

lemma detect_version_two_leading_number:
  "detect_version_two (VInt major # rest) =
     Inr ((VStr ''firebird'' \<in> set rest \<and> 2 \<le> major)
          \<or> (VStr ''interbase'' \<in> set rest \<and> 6 \<le> major))"
  by (auto simp: detect_version_two_def split: sum.splits bool.splits)

lemma initialize_legacy:
  assumes "detect_version_two (server_version_info conn) = Inr False"
  shows "initialize self conn =
           Inr (self\<lparr>version_two := False,
                     self_ischema_names := ischema_names(''TIMESTAMP'' \<mapsto> DATE),
                     self_colspecs := [''DateTime'' \<mapsto> ''DATE''],
                     implicit_returning := Some False,
                     max_identifier_length := (if engine_version conn < 4 then 31 else 252)\<rparr>)"
  using assms by (simp add: initialize_def)

lemma initialize_modern:
  assumes "detect_version_two (server_version_info conn) = Inr True"
  shows "initialize self conn =
           Inr (self\<lparr>version_two := True,
                     implicit_returning :=
                       Some (case implicit_returning self of None \<Rightarrow> True | Some b \<Rightarrow> b),
                     max_identifier_length := (if engine_version conn < 4 then 31 else 252)\<rparr>)"
  using assms by (simp add: initialize_def)

text \<open>
  C1, as the code has it. For every connection whose version tuple is neither a
  \<open>firebird\<close> one with major version at least 2 nor an \<open>interbase\<close> one with major version
  at least 6, initialization succeeds and installs a copy of the module's mapping table
  in which exactly the \<open>TIMESTAMP\<close> entry is changed: \<open>TIMESTAMP\<close> resolves to the
  date-only type \<open>DATE\<close>, and every other catalog type name, \<open>TIME\<close> among them, resolves
  as in the standard table.
\<close>

theorem legacy_type_map:
  assumes "detect_version_two (server_version_info conn) = Inr False"
  shows "\<exists>d. initialize self conn = Inr d
             \<and> self_ischema_names d = ischema_names(''TIMESTAMP'' \<mapsto> DATE)
             \<and> self_ischema_names d ''TIMESTAMP'' = Some DATE
             \<and> self_ischema_names d ''DATE'' = Some DATE
             \<and> self_ischema_names d ''TIME'' = Some TIME
             \<and> (\<forall>k. k \<noteq> ''TIMESTAMP'' \<longrightarrow> self_ischema_names d k = ischema_names k)"
  using initialize_legacy [OF assms, of self] by (simp add: ischema_names_def)

theorem legacy_type_map_witness:
  "\<exists>d. initialize FBDialect_class legacy_connection = Inr d
       \<and> self_ischema_names d ''TIMESTAMP'' = Some DATE
       \<and> self_ischema_names d ''TIME'' = Some TIME
       \<and> self_ischema_names d ''SHORT'' = Some SMALLINT"
proof -
  have h: "detect_version_two (server_version_info legacy_connection) = Inr False"
    by (simp add: legacy_connection_def detect_version_two_def)
  from legacy_type_map [OF h, of FBDialect_class] obtain d where
    d: "initialize FBDialect_class legacy_connection = Inr d"
       "self_ischema_names d ''TIMESTAMP'' = Some DATE"
       "self_ischema_names d ''TIME'' = Some TIME"
       "\<forall>k. k \<noteq> ''TIMESTAMP'' \<longrightarrow> self_ischema_names d k = ischema_names k"
    by blast
  from d(4) have "self_ischema_names d ''SHORT'' = Some SMALLINT"
    by (simp add: ischema_names_def)
  with d show ?thesis by blast
qed

text \<open>
  C1 as stated fails: on a legacy connection the date/time catalog type \<open>TIME\<close> still
  resolves to the time type, not to the date-only type.
\<close>

theorem legacy_time_not_date_only:
  "detect_version_two (server_version_info legacy_connection) = Inr False
   \<and> (case initialize FBDialect_class legacy_connection of
        Inl e \<Rightarrow> None | Inr d \<Rightarrow> self_ischema_names d ''TIME'') = Some TIME
   \<and> (case initialize FBDialect_class legacy_connection of
        Inl e \<Rightarrow> None | Inr d \<Rightarrow> self_ischema_names d ''TIME'') \<noteq> Some DATE"
  by (simp add: legacy_connection_def detect_version_two_def initialize_def ischema_names_def)

subsection \<open>Names\<close>

lemmas ident_defs =
  normalize_name_def denormalize_name_def requires_quotes_def lower_def upper_def
  lower_char_def upper_char_def ascii_uppercase_def ascii_lowercase_def digits_def
  latin1_uppercase_def latin1_lowercase_def normalize_quote_def
  reserved_words_def RESERVED_WORDS_def illegal_initial_characters_def
  ILLEGAL_INITIAL_CHARACTERS_def legal_characters_match_def legal_char_def

lemma requires_quotes_nonempty: "v \<noteq> [] \<Longrightarrow> \<exists>b. requires_quotes v = Inr b"
  by (cases v) (auto simp: requires_quotes_def Let_def)

lemma upper_eq_lower_Nil: "upper name \<noteq> lower name \<Longrightarrow> lower name \<noteq> []"
  by (auto simp: upper_def lower_def)

lemma normalize_name_cases:
  "normalize_name name = Inr name \<or> normalize_name name = Inr (lower name)"
proof (cases "upper name = lower name")
  case True
  then show ?thesis by (simp add: normalize_name_def)
next
  case False
  from requires_quotes_nonempty [OF upper_eq_lower_Nil [OF False]]
  obtain b where "requires_quotes (lower name) = Inr b" ..
  then show ?thesis by (simp add: normalize_name_def Let_def)
qed

lemma denormalize_name_cases:
  "denormalize_name name = Inr name \<or> denormalize_name name = Inr (upper name)"
proof (cases "upper name = lower name")
  case True
  then show ?thesis by (simp add: denormalize_name_def)
next
  case False
  from requires_quotes_nonempty [OF upper_eq_lower_Nil [OF False]]
  obtain b where "requires_quotes (lower name) = Inr b" ..
  then show ?thesis by (cases "lower name = name") (simp_all add: denormalize_name_def Let_def)
qed

lemma denormalize_name_total: "\<exists>n. denormalize_name name = Inr n"
  using denormalize_name_cases [of name] by blast

lemma normalize_name_total: "\<exists>n. normalize_name name = Inr n"
  using normalize_name_cases [of name] by blast

subsection \<open>Column reflection\<close>

lemma columns_of_rows_list_all2:
  "columns_of_rows self pk t conn rs = Inr (cols, conn') \<Longrightarrow>
     list_all2 (\<lambda>r col. \<exists>c c'. column_of_row self pk t c r = Inr (col, c')) rs cols"
proof (induction rs arbitrary: conn cols)
  case Nil
  then show ?case by simp
next
  case (Cons r rs)
  then show ?case
    by (fastforce split: sum.splits prod.splits)
qed

lemma get_columns_rows:
  assumes "get_columns self conn table_name = Inr (cols, conn')"
  shows "\<exists>tablename pk. denormalize_name table_name = Inr tablename
           \<and> list_all2 (\<lambda>r col. \<exists>c c'. column_of_row self pk tablename c r = Inr (col, c'))
                (rdb_relation_fields conn tablename) cols"
proof -
  from assms obtain pk conn1 tablename where
    pk: "get_pk_constraint conn table_name = Inr (pk, conn1)" and
    tn: "denormalize_name table_name = Inr tablename" and
    cs: "columns_of_rows self pk tablename (execute conn1 (Q_columns tablename))
           (rdb_relation_fields conn1 tablename) = Inr (cols, conn')"
    by (auto simp: get_columns_def split: sum.splits prod.splits)
  from pk tn have "rdb_relation_fields conn1 = rdb_relation_fields conn"
    by (auto simp: get_pk_constraint_def execute_def Let_def split: sum.splits)
  with columns_of_rows_list_all2 [OF cs] tn show ?thesis by auto
qed

lemma column_of_row_quote:
  "column_of_row self pk t c r = Inr (col, c') \<Longrightarrow>
     d_quote col = (if lower (fname r) = fname r then Some True else None)"
  by (auto simp: column_of_row_def Let_def split: sum.splits prod.splits if_splits)


lemma column_of_row_default:
  "column_of_row self pk t c r = Inr (col, c') \<Longrightarrow> defvalue_of r = Inr (d_default col)"
  by (auto simp: column_of_row_def Let_def split: sum.splits prod.splits if_splits)


lemma get_columns_default:
  assumes "get_columns self conn table_name = Inr (cols, conn')"
  shows "\<exists>tablename. denormalize_name table_name = Inr tablename
           \<and> list_all2 (\<lambda>r col. defvalue_of r = Inr (d_default col))
                (rdb_relation_fields conn tablename) cols"
proof -
  from get_columns_rows [OF assms] obtain tablename pk where
    tn: "denormalize_name table_name = Inr tablename" and
    rows: "list_all2 (\<lambda>r col. \<exists>c c'. column_of_row self pk tablename c r = Inr (col, c'))
                (rdb_relation_fields conn tablename) cols"
    by blast
  from rows have "list_all2 (\<lambda>r col. defvalue_of r = Inr (d_default col))
                (rdb_relation_fields conn tablename) cols"
    by (rule list_all2_mono) (auto dest: column_of_row_default)
  with tn show ?thesis by blast
qed

text \<open>The example catalog, reflected.\<close>

lemma denormalize_orders: "denormalize_name ''orders'' = Inr ''ORDERS''"
  by (simp add: ident_defs)

lemma denormalize_accounts: "denormalize_name ''accounts'' = Inr ''ACCOUNTS''"
  by (simp add: ident_defs)

lemmas reflect_defs =
  get_columns_def get_pk_constraint_def example_connection_def execute_def
  column_of_row_def coltype_of_def defvalue_of_def get_column_sequence_def
  row_ID_def row_PRICE_def row_MyCol_def row_note_def row_BALANCE_def
  FBDialect_class_def ischema_names_def
  rstrip_def lstrip_def strip_def isspace_def whitespace_def Let_def

lemma example_get_columns:
  "get_columns FBDialect_class example_connection ''orders'' =
     Inr ([\<lparr>d_name = ''id'', d_type = New INTEGER [], d_nullable = False,
             d_default = None, d_autoincrement = ''auto'', d_quote = None,
             d_computed = None, d_sequence = Some ''gen_orders_id''\<rparr>,
           \<lparr>d_name = ''price'', d_type = NUMERIC (Some 5) 2, d_nullable = True,
             d_default = Some ''0'', d_autoincrement = ''auto'', d_quote = None,
             d_computed = None, d_sequence = None\<rparr>,
           \<lparr>d_name = ''MyCol'', d_type = New FB_VARCHAR [Some 20], d_nullable = True,
             d_default = Some ([CHR 0x27] @ ''n/a'' @ [CHR 0x27]), d_autoincrement = ''auto'',
             d_quote = None, d_computed = None, d_sequence = None\<rparr>,
           \<lparr>d_name = ''note'', d_type = New TEXT [], d_nullable = True,
             d_default = None, d_autoincrement = ''auto'', d_quote = Some True,
             d_computed = None, d_sequence = None\<rparr>],
          example_connection
            \<lparr>issued := [Q_pk_constraint ''PRIMARY KEY'' ''ORDERS'', Q_columns ''ORDERS'',
                        Q_column_sequence ''ORDERS'' ''ID'']\<rparr>)"
  by (simp add: reflect_defs denormalize_orders ident_defs)

lemma example_rows: "rdb_relation_fields example_connection ''ORDERS'' =
    [row_ID, row_PRICE, row_MyCol, row_note]"
  by (simp add: example_connection_def)

text \<open>
  Names beyond ASCII: a Latin-1 capital is lower-cased as \<open>str.lower\<close> does, so a column
  named by one is not flagged; and an all-lower-case key column reaches
  \<open>get_column_sequence\<close> as a quoted name, which is looked up in its own case.
\<close>

lemma lower_latin1_capital: "lower [CHR 0xC9] = [CHR 0xE9] \<and> lower [CHR 0xD7] = [CHR 0xD7]"
  by (simp add: lower_def lower_char_def ascii_uppercase_def ascii_lowercase_def
        latin1_uppercase_def latin1_lowercase_def)

lemma latin1_capital_not_flagged:
  "column_of_row FBDialect_class [] ''ORDERS'' example_connection
     (row_MyCol\<lparr>fname := [CHR 0xC9]\<rparr>)
     = Inr (\<lparr>d_name = [CHR 0xC9], d_type = New FB_VARCHAR [Some 20], d_nullable = True,
             d_default = Some ([CHR 0x27] @ ''n/a'' @ [CHR 0x27]), d_autoincrement = ''auto'',
             d_quote = None, d_computed = None, d_sequence = None\<rparr>, example_connection)"
  by (simp add: column_of_row_def coltype_of_def defvalue_of_def row_MyCol_def
        FBDialect_class_def ischema_names_def example_connection_def
        rstrip_def lstrip_def strip_def isspace_def whitespace_def Let_def ident_defs)

lemma lower_case_key_keeps_its_case:
  "normalize_name ''note'' = Inr ''note'' \<and> normalize_quote ''note''
   \<and> get_column_sequence example_connection ''ORDERS'' (Quoted ''note'')
       = Inr (None, example_connection\<lparr>issued := [Q_column_sequence ''ORDERS'' ''note'']\<rparr>)"
  by (simp add: get_column_sequence_def example_connection_def execute_def ident_defs)

text \<open>
  C2, as the code has it. For every column returned by \<open>get_columns\<close>, the descriptor
  carries the quote flag if and only if the catalog-reported name equals its own
  lower-casing, that is, contains no upper-case letter; the descriptors pair with the
  catalog rows of the table in order.
\<close>

theorem get_columns_quote_flag:
  assumes "get_columns self conn table_name = Inr (cols, conn')"
  shows "\<exists>tablename. denormalize_name table_name = Inr tablename
           \<and> list_all2 (\<lambda>r col. d_quote col = (if lower (fname r) = fname r then Some True else None))
                (rdb_relation_fields conn tablename) cols"
proof -
  from get_columns_rows [OF assms] obtain tablename pk where
    tn: "denormalize_name table_name = Inr tablename" and
    rows: "list_all2 (\<lambda>r col. \<exists>c c'. column_of_row self pk tablename c r = Inr (col, c'))
                (rdb_relation_fields conn tablename) cols"
    by blast
  from rows have "list_all2 (\<lambda>r col. d_quote col = (if lower (fname r) = fname r then Some True else None))
                (rdb_relation_fields conn tablename) cols"
    by (rule list_all2_mono) (auto dest: column_of_row_quote)
  with tn show ?thesis by blast
qed

theorem get_columns_quote_flag_witness:
  "\<exists>cols conn'. get_columns FBDialect_class example_connection ''orders'' = Inr (cols, conn')
     \<and> list_all2 (\<lambda>r col. d_quote col = (if lower (fname r) = fname r then Some True else None))
          [row_ID, row_PRICE, row_MyCol, row_note] cols"
  using get_columns_quote_flag [OF example_get_columns] example_get_columns
  by (simp add: denormalize_orders example_rows)

text \<open>
  C2 as stated fails: the catalog name \<open>MyCol\<close> is not all-uppercase (it differs from
  its upper-casing and contains lower-case letters), yet its descriptor carries no quote
  flag; of the four columns of \<open>ORDERS\<close> only the all-lower-case \<open>note\<close> is flagged.
\<close>

theorem mixed_case_column_not_flagged:
  "fname row_MyCol = ''MyCol''
   \<and> upper (fname row_MyCol) \<noteq> fname row_MyCol
   \<and> (case get_columns FBDialect_class example_connection ''orders'' of
        Inl e \<Rightarrow> [] | Inr (cols, c) \<Rightarrow> map d_quote cols) = [None, None, None, Some True]"
  by (simp add: example_get_columns)
     (simp add: row_MyCol_def upper_def upper_char_def ascii_lowercase_def ascii_uppercase_def
        latin1_lowercase_def latin1_uppercase_def)

subsection \<open>Default-value sources\<close>

lemma rstrip_snoc: "rstrip (xs @ [c]) = (if isspace c then rstrip xs else xs @ [c])"
  by (simp add: rstrip_def)

lemma rstrip_Nil: "rstrip [] = []"
  by (simp add: rstrip_def)

lemma length_rstrip_le: "length (rstrip xs) \<le> length xs"
  by (simp add: rstrip_def length_dropWhile_le [of isspace "rev xs", simplified])

lemma rstrip_same_length: "length (rstrip xs) = length xs \<Longrightarrow> rstrip xs = xs"
proof (induction xs rule: rev_induct)
  case Nil
  then show ?case by (simp add: rstrip_Nil)
next
  case (snoc c xs)
  show ?case
  proof (cases "isspace c")
    case True
    with snoc.prems have "length (rstrip xs) = Suc (length xs)"
      by (simp add: rstrip_snoc)
    with length_rstrip_le [of xs] show ?thesis by simp
  next
    case False
    then show ?thesis by (simp add: rstrip_snoc)
  qed
qed

lemma rstrip_no_trailing_space: "xs \<noteq> [] \<Longrightarrow> \<not> isspace (last xs) \<Longrightarrow> rstrip xs = xs"
  by (cases xs rule: rev_cases) (simp_all add: rstrip_snoc)

lemma isspace_cases:
  "isspace c \<Longrightarrow>
     c \<in> {CHR 0x09, CHR 0x0A, CHR 0x0B, CHR 0x0C, CHR 0x0D, CHR 0x1C, CHR 0x1D, CHR 0x1E,
          CHR 0x1F, CHR 0x20, CHR 0x85, CHR 0xA0}"
  by (simp add: isspace_def whitespace_def)

lemma space_upper_char: "isspace c \<Longrightarrow> upper_char c = c"
  apply (drule isspace_cases)
  apply (simp only: insert_iff empty_iff)
  apply (elim disjE FalseE)
  apply (simp_all add: upper_char_def ascii_lowercase_def ascii_uppercase_def
           latin1_lowercase_def latin1_uppercase_def)
  done

lemma space_not_in_DEFAULT: "isspace c \<Longrightarrow> upper_char c \<notin> set ''DEFAULT''"
  apply (frule space_upper_char)
  apply (drule isspace_cases)
  apply (simp only: insert_iff empty_iff)
  apply (elim disjE FalseE)
  apply simp_all
  done

lemma upper_DEFAULT_last:
  assumes "upper xs = ''DEFAULT''"
  shows "length xs = 7 \<and> xs \<noteq> [] \<and> \<not> isspace (last xs)"
proof -
  from assms have "length (upper xs) = length ''DEFAULT''" by simp
  then have len: "length xs = 7" by (simp add: upper_def)
  then have ne: "xs \<noteq> []" by auto
  then have "upper_char (last xs) = last (upper xs)"
    by (simp add: upper_def last_map)
  with assms have "upper_char (last xs) \<in> set ''DEFAULT''" by simp
  with space_not_in_DEFAULT have "\<not> isspace (last xs)" by blast
  with len ne show ?thesis by simp
qed

lemma default_check_short:
  assumes "length xs \<le> 7"
  shows "upper (rstrip xs) = ''DEFAULT'' \<longleftrightarrow> upper xs = ''DEFAULT''"
proof
  assume h: "upper (rstrip xs) = ''DEFAULT''"
  then have "length (rstrip xs) = 7" using upper_DEFAULT_last by blast
  with assms length_rstrip_le [of xs] have "length (rstrip xs) = length xs" by simp
  then have "rstrip xs = xs" by (rule rstrip_same_length)
  with h show "upper xs = ''DEFAULT''" by simp
next
  assume h: "upper xs = ''DEFAULT''"
  then have "rstrip xs = xs"
    using upper_DEFAULT_last rstrip_no_trailing_space by blast
  with h show "upper (rstrip xs) = ''DEFAULT''" by simp
qed

lemma default_prefix_check:
  "upper (rstrip (take 8 d)) = ''DEFAULT''
     \<longleftrightarrow> upper (take 7 d) = ''DEFAULT'' \<and> (length d \<le> 7 \<or> isspace (d ! 7))"
proof (cases "length d \<le> 7")
  case True
  then have "take 8 d = d" "take 7 d = d" by simp_all
  with True default_check_short [of d] show ?thesis by simp
next
  case False
  then have t8: "take 8 d = take 7 d @ [d ! 7]"
    using take_Suc_conv_app_nth [of 7 d] by simp
  show ?thesis
  proof (cases "isspace (d ! 7)")
    case True
    with t8 have "rstrip (take 8 d) = rstrip (take 7 d)" by (simp add: rstrip_snoc)
    with True default_check_short [of "take 7 d"] show ?thesis by simp
  next
    case sp: False
    with t8 have "rstrip (take 8 d) = take 8 d" by (simp add: rstrip_snoc)
    moreover from False have "length (take 8 d) = 8" by simp
    ultimately have "upper (rstrip (take 8 d)) \<noteq> ''DEFAULT''"
      using upper_DEFAULT_last [of "take 8 d"] by auto
    with sp False show ?thesis by simp
  qed
qed

lemma default_text_after_prefix:
  assumes "length d \<le> 7 \<or> isspace (d ! 7)"
  shows "strip (drop 8 d) = strip (drop 7 d)"
proof (cases "length d \<le> 7")
  case True
  then show ?thesis by simp
next
  case False
  with assms have sp: "isspace (d ! 7)" by simp
  from False have "drop 7 d = d ! 7 # drop 8 d"
    using Cons_nth_drop_Suc [of 7 d] by simp
  with sp show ?thesis by (simp add: strip_def lstrip_def)
qed

text \<open>
  C3, as the code has it. For a row with a non-null default source, let \<open>d\<close> be the source
  without its leading whitespace. The check passes exactly when \<open>d\<close> begins,
  case-insensitively, with \<open>DEFAULT\<close> and the keyword either ends the text or is followed
  by a whitespace character; then the reported default is the text after the keyword with
  surrounding whitespace stripped, and a remaining text of exactly \<open>NULL\<close> is reported as
  no default. In every other case the row raises \<open>AssertionError\<close>, and with it the whole
  \<open>get_columns\<close> call (no descriptor list is returned, see \<open>get_columns_default\<close>).
\<close>

theorem default_source_parse:
  assumes "fdefault r = Some src"
  shows "defvalue_of r =
           (let d = lstrip src in
            if upper (take 7 d) = ''DEFAULT'' \<and> (length d \<le> 7 \<or> isspace (d ! 7))
            then Inr (if strip (drop 7 d) = ''NULL'' then None else Some (strip (drop 7 d)))
            else Inl (AssertionError (''Unrecognized default value: '' @ d)))"
proof (cases "upper (take 7 (lstrip src)) = ''DEFAULT''
                \<and> (length (lstrip src) \<le> 7 \<or> isspace (lstrip src ! 7))")
  case True
  then have "upper (rstrip (take 8 (lstrip src))) = ''DEFAULT''"
    by (simp only: default_prefix_check)
  moreover from True have "strip (drop 8 (lstrip src)) = strip (drop 7 (lstrip src))"
    by (intro default_text_after_prefix) simp
  ultimately show ?thesis using assms True
    by (simp add: defvalue_of_def Let_def)
next
  case False
  then have "upper (rstrip (take 8 (lstrip src))) \<noteq> ''DEFAULT''"
    by (simp only: default_prefix_check) simp
  then show ?thesis using assms False
    by (simp add: defvalue_of_def Let_def)
qed

theorem default_source_parse_witness:
  "fdefault row_MyCol = Some (''  default   '' @ [CHR 0x27] @ ''n/a'' @ [CHR 0x27] @ ''  '')
   \<and> defvalue_of row_MyCol = Inr (Some ([CHR 0x27] @ ''n/a'' @ [CHR 0x27]))"
proof -
  have h: "fdefault row_MyCol = Some (''  default   '' @ [CHR 0x27] @ ''n/a'' @ [CHR 0x27] @ ''  '')"
    by (simp add: row_MyCol_def)
  from default_source_parse [OF h] show ?thesis
    by (simp add: h lstrip_def rstrip_def strip_def isspace_def whitespace_def upper_def
          upper_char_def ascii_lowercase_def ascii_uppercase_def latin1_lowercase_def
          latin1_uppercase_def Let_def)
qed

text \<open>
  C3 as stated fails: the source \<open>DEFAULT-1\<close> begins with the keyword \<open>DEFAULT\<close>, but
  the reported default is not the text after that prefix; the row raises
  \<open>AssertionError\<close>, and so does reflecting its table.
\<close>

theorem default_without_blank_rejected:
  "fdefault row_BALANCE = Some ''DEFAULT-1''
   \<and> upper (take 7 (lstrip ''DEFAULT-1'')) = ''DEFAULT''
   \<and> strip (drop 7 (lstrip ''DEFAULT-1'')) = ''-1''
   \<and> defvalue_of row_BALANCE = Inl (AssertionError ''Unrecognized default value: DEFAULT-1'')
   \<and> get_columns FBDialect_class example_connection ''accounts''
       = Inl (AssertionError ''Unrecognized default value: DEFAULT-1'')"
  by (simp add: reflect_defs denormalize_accounts ident_defs)

subsection \<open>Integer columns with a precision\<close>



subsection \<open>Table existence\<close>

lemma initialize_max_identifier_length:
  "initialize self0 conn0 = Inr self \<Longrightarrow>
     max_identifier_length self = (if engine_version conn0 < 4 then 31 else 252)"
  by (auto simp: initialize_def Let_def split: sum.splits)

lemma has_table_too_long:
  "max_identifier_length self < length table_name \<Longrightarrow>
     has_table self conn table_name = Inr (False, conn)"
  by (simp add: has_table_def)

lemma has_table_within_limit:
  assumes "length table_name \<le> max_identifier_length self"
  shows "\<exists>tbl. denormalize_name table_name = Inr tbl
           \<and> has_table self conn table_name =
               Inr (tbl \<in> set (rdb_relations conn),
                    conn\<lparr>issued := issued conn @ [Q_has_table tbl]\<rparr>)"
proof -
  from denormalize_name_total obtain tbl where t: "denormalize_name table_name = Inr tbl"
    by blast
  have "(filter (\<lambda>r. r = tbl) (rdb_relations conn) \<noteq> []) = (tbl \<in> set (rdb_relations conn))"
    by (auto simp: filter_empty_conv)
  with assms t show ?thesis
    by (simp add: has_table_def execute_def Let_def)
qed

text \<open>
  C7. Initialization fixes the maximum identifier length at 31 when the driver-reported
  engine version is below 4.0 and at 252 otherwise. On the initialized dialect,
  \<open>has_table\<close> returns \<open>False\<close> for a name longer than that and leaves the connection as it
  was (no query is issued); for a name within the limit it issues the one existence query,
  with the denormalized name, and returns \<open>True\<close> exactly when the relation catalog has a
  row with that name.
\<close>

theorem has_table_identifier_limit:
  assumes "initialize self0 conn0 = Inr self"
  shows "max_identifier_length self = (if engine_version conn0 < 4 then 31 else 252)
       \<and> (max_identifier_length self < length table_name
            \<longrightarrow> has_table self conn table_name = Inr (False, conn))
       \<and> (length table_name \<le> max_identifier_length self
            \<longrightarrow> (\<exists>tbl. denormalize_name table_name = Inr tbl
                   \<and> has_table self conn table_name =
                       Inr (tbl \<in> set (rdb_relations conn),
                            conn\<lparr>issued := issued conn @ [Q_has_table tbl]\<rparr>)))"
  using initialize_max_identifier_length [OF assms] has_table_too_long has_table_within_limit
  by blast

theorem has_table_identifier_limit_witness:
  "\<exists>self. initialize FBDialect_class example_connection = Inr self
     \<and> max_identifier_length self = 31
     \<and> has_table self example_connection ''a_table_name_of_thirty_two_chars''
         = Inr (False, example_connection)
     \<and> has_table self example_connection ''orders''
         = Inr (True, example_connection\<lparr>issued := [Q_has_table ''ORDERS'']\<rparr>)
     \<and> has_table self example_connection ''invoices''
         = Inr (False, example_connection\<lparr>issued := [Q_has_table ''INVOICES'']\<rparr>)"
proof -
  have "detect_version_two (server_version_info example_connection) = Inr True"
    by (simp add: example_connection_def detect_version_two_def)
  from initialize_modern [OF this, of FBDialect_class] obtain self where
    i: "initialize FBDialect_class example_connection = Inr self" by blast
  have ev: "engine_version example_connection = 3" and iss: "issued example_connection = []"
    and rel: "rdb_relations example_connection = [''ORDERS'', ''ACCOUNTS'']"
    by (simp_all add: example_connection_def)
  have d2: "denormalize_name ''invoices'' = Inr ''INVOICES''"
    by (simp add: ident_defs)
  note t = has_table_identifier_limit [OF i]
  from t [of "''orders''" example_connection] have m: "max_identifier_length self = 31"
    by (simp add: ev)
  from t [of "''a_table_name_of_thirty_two_chars''" example_connection] m
  have a: "has_table self example_connection ''a_table_name_of_thirty_two_chars''
         = Inr (False, example_connection)" by simp
  from t [of "''orders''" example_connection] m
  have b: "has_table self example_connection ''orders''
         = Inr (True, example_connection\<lparr>issued := [Q_has_table ''ORDERS'']\<rparr>)"
    by (simp add: denormalize_orders iss rel)
  from t [of "''invoices''" example_connection] m
  have c: "has_table self example_connection ''invoices''
         = Inr (False, example_connection\<lparr>issued := [Q_has_table ''INVOICES'']\<rparr>)"
    by (simp add: d2 iss rel)
  from i m a b c show ?thesis by blast
qed

subsection \<open>Upper-case identifiers\<close>

lemma plain_char_cases:
  assumes "c \<in> set (ascii_uppercase @ digits @ ''_'')"
  shows "upper_char c = c \<and> upper_char (lower_char c) = c
       \<and> lower_char (lower_char c) = lower_char c
       \<and> legal_char c \<and> legal_char (lower_char c)
       \<and> c \<noteq> CHR 0x0A \<and> lower_char c \<noteq> CHR 0x0A
       \<and> (lower_char c \<in> illegal_initial_characters) = (c \<in> illegal_initial_characters)"
proof -
  from assms have "c \<in> set ascii_uppercase \<or> c \<in> set digits \<or> c = CHR ''_''"
    by auto
  then show ?thesis
    apply (simp only: ascii_uppercase_def digits_def list.set insert_iff empty_iff)
    apply (elim disjE FalseE)
    apply (simp_all add: upper_char_def lower_char_def legal_char_def ascii_uppercase_def
             ascii_lowercase_def latin1_uppercase_def latin1_lowercase_def digits_def
             illegal_initial_characters_def
             ILLEGAL_INITIAL_CHARACTERS_def)
    done
qed

lemma plain_upper: "set x \<subseteq> set (ascii_uppercase @ digits @ ''_'') \<Longrightarrow> upper x = x"
  unfolding upper_def by (rule map_idI) (use plain_char_cases in blast)

lemma plain_upper_lower:
  "set x \<subseteq> set (ascii_uppercase @ digits @ ''_'') \<Longrightarrow> upper (lower x) = x"
  unfolding upper_def lower_def map_map comp_def by (rule map_idI) (use plain_char_cases in blast)

lemma plain_lower_lower:
  "set x \<subseteq> set (ascii_uppercase @ digits @ ''_'') \<Longrightarrow> lower (lower x) = lower x"
  unfolding lower_def map_map comp_def by (rule map_cong) (use plain_char_cases in blast)+

lemma plain_legal:
  assumes "x \<noteq> []" and "set x \<subseteq> set (ascii_uppercase @ digits @ ''_'')"
  shows "legal_characters_match x" and "legal_characters_match (lower x)"
proof -
  from assms have l: "last x \<in> set (ascii_uppercase @ digits @ ''_'')"
    using last_in_set by blast
  from assms(1) have ll: "last (lower x) = lower_char (last x)"
    by (simp add: lower_def last_map)
  from assms(2) have a: "list_all legal_char x" "list_all legal_char (lower x)"
    using plain_char_cases by (auto simp: list_all_iff lower_def)
  from plain_char_cases [OF l] assms(1) a(1) show "legal_characters_match x"
    by (simp add: legal_characters_match_def)
  from plain_char_cases [OF l] assms(1) a(2) ll show "legal_characters_match (lower x)"
    by (simp add: legal_characters_match_def lower_def)
qed

lemma requires_quotes_Cons:
  "requires_quotes (c # cs)
     = Inr (lower (c # cs) \<in> reserved_words \<or> c \<in> illegal_initial_characters
            \<or> \<not> legal_characters_match (c # cs) \<or> lower (c # cs) \<noteq> c # cs)"
  by (simp add: requires_quotes_def Let_def)

lemma plain_requires_quotes_lower:
  assumes "x \<noteq> []" and "set x \<subseteq> set (ascii_uppercase @ digits @ ''_'')"
  shows "requires_quotes (lower x)
           = Inr (lower x \<in> reserved_words \<or> hd x \<in> illegal_initial_characters)"
proof -
  from assms obtain c cs where x: "x = c # cs" by (cases x) auto
  with assms(2) have "c \<in> set (ascii_uppercase @ digits @ ''_'')" by simp
  from plain_char_cases [OF this]
  have i: "(lower_char c \<in> illegal_initial_characters) = (c \<in> illegal_initial_characters)"
    by blast
  have lc: "lower x = lower_char c # lower cs" by (simp add: x lower_def)
  have "requires_quotes (lower x)
          = Inr (lower (lower x) \<in> reserved_words \<or> lower_char c \<in> illegal_initial_characters
                 \<or> \<not> legal_characters_match (lower x) \<or> lower (lower x) \<noteq> lower x)"
    unfolding lc by (rule requires_quotes_Cons)
  also have "\<dots> = Inr (lower x \<in> reserved_words \<or> c \<in> illegal_initial_characters)"
    using plain_legal(2) [OF assms] plain_lower_lower [OF assms(2)] i by simp
  finally show ?thesis by (simp add: x)
qed

lemma plain_requires_quotes_mixed:
  assumes "x \<noteq> []" and "lower x \<noteq> x"
  shows "requires_quotes x = Inr True"
  using assms by (cases x) (auto simp: requires_quotes_def Let_def)

text \<open>
  C8, amended. For every non-empty identifier \<open>x\<close> of upper-case ASCII letters, digits and
  underscores, \<open>denormalize(normalize(x)) = x\<close>, and \<open>normalize(x)\<close> requires quoting
  exactly when \<open>x\<close> matches a reserved word case-insensitively or begins with an illegal
  leading character (a digit or the underscore; the dollar sign cannot occur in such an
  \<open>x\<close>).
\<close>

theorem normalize_round_trip:
  assumes "x \<noteq> []" and "set x \<subseteq> set (ascii_uppercase @ digits @ ''_'')"
  shows "\<exists>n. normalize_name x = Inr n
           \<and> denormalize_name n = Inr x
           \<and> requires_quotes n
               = Inr (lower x \<in> reserved_words \<or> hd x \<in> illegal_initial_characters)"
proof -
  let ?R = "lower x \<in> reserved_words \<or> hd x \<in> illegal_initial_characters"
  note up = plain_upper [OF assms(2)]
  note ul = plain_upper_lower [OF assms(2)]
  note ll = plain_lower_lower [OF assms(2)]
  note rq = plain_requires_quotes_lower [OF assms]
  show ?thesis
  proof (cases "lower x = x")
    case True
    with up have n: "normalize_name x = Inr x"
      by (simp add: normalize_name_def)
    from True up have d: "denormalize_name x = Inr x"
      by (simp add: denormalize_name_def)
    from rq True have "requires_quotes x = Inr ?R" by simp
    with n d show ?thesis by blast
  next
    case False
    show ?thesis
    proof (cases ?R)
      case True
      with rq up False have n: "normalize_name x = Inr x"
        by (simp add: normalize_name_def Let_def)
      from up False have d: "denormalize_name x = Inr x"
        by (simp add: denormalize_name_def Let_def)
      from plain_requires_quotes_mixed [OF assms(1) False] True
      have "requires_quotes x = Inr ?R" by simp
      with n d show ?thesis by blast
    next
      case nr: False
      with rq up False have n: "normalize_name x = Inr (lower x)"
        by (simp add: normalize_name_def Let_def)
      from rq nr ul ll False have d: "denormalize_name (lower x) = Inr x"
        by (simp add: denormalize_name_def Let_def)
      from n d rq show ?thesis by blast
    qed
  qed
qed

theorem normalize_round_trip_witness:
  "normalize_name ''ORDER_ID'' = Inr ''order_id''
   \<and> denormalize_name ''order_id'' = Inr ''ORDER_ID''
   \<and> requires_quotes ''order_id'' = Inr False"
proof -
  have a: "''ORDER_ID'' \<noteq> []" by simp
  have b: "set ''ORDER_ID'' \<subseteq> set (ascii_uppercase @ digits @ ''_'')"
    by (simp add: ascii_uppercase_def digits_def)
  have n: "normalize_name ''ORDER_ID'' = Inr ''order_id''"
    by (simp add: ident_defs)
  have r: "(lower ''ORDER_ID'' \<in> reserved_words \<or> hd ''ORDER_ID'' \<in> illegal_initial_characters)
             = False"
    by (simp add: ident_defs)
  from normalize_round_trip [OF a b] n r show ?thesis by simp
qed

text \<open>
  C8 as stated fails: \<open>_ID\<close> consists of an underscore and upper-case letters and matches
  no reserved word, yet its normalized form requires quoting, because the dialect's
  preparer adds the underscore to the illegal leading characters.
\<close>

theorem leading_underscore_requires_quotes:
  "set ''_ID'' \<subseteq> set (ascii_uppercase @ digits @ ''_'')
   \<and> lower ''_ID'' \<notin> reserved_words
   \<and> normalize_name ''_ID'' = Inr ''_ID''
   \<and> requires_quotes ''_ID'' = Inr True"
  by (simp add: ident_defs)

subsection \<open>Rendering: rejected constructs\<close>

text \<open>
  C4. Each unsupported construct is rejected by the compiler with an error and no SQL
  text: \<open>CREATE SEQUENCE\<close> for a sequence with a start value or an increment
  (\<open>NotImplementedError\<close>), a computed column whose \<open>persisted\<close> is not \<open>None\<close>
  (\<open>CompileError\<close>), and a \<open>VARCHAR\<close> with no length (\<open>CompileError\<close>), also when reached
  through the type compiler's dispatch.
\<close>

theorem unsupported_constructs_rejected:
  "(start elem \<noteq> None \<or> increment elem \<noteq> None
      \<longrightarrow> (\<exists>m. visit_create_sequence h dialect elem = Inl (NotImplementedError m)))
   \<and> (persisted generated \<noteq> None
      \<longrightarrow> (\<exists>m. visit_computed_column h generated = Inl (CompileError m)))
   \<and> visit_VARCHAR h None charset
        = Inl (CompileError ''VARCHAR requires a length on dialect firebird'')
   \<and> type_compiler_process h (T_VARCHAR None charset)
        = Inl (CompileError ''VARCHAR requires a length on dialect firebird'')"
  by (simp add: visit_create_sequence_def visit_computed_column_def visit_VARCHAR_def
        dialect_name_def)

theorem unsupported_constructs_rejected_witness:
  "start seq_start \<noteq> None
   \<and> (\<exists>m. visit_create_sequence plain_host FBDialect_class seq_start
            = Inl (NotImplementedError m))
   \<and> persisted computed_stored \<noteq> None
   \<and> (\<exists>m. visit_computed_column plain_host computed_stored = Inl (CompileError m))
   \<and> type_compiler_process plain_host (T_VARCHAR None None)
        = Inl (CompileError ''VARCHAR requires a length on dialect firebird'')"
proof -
  have a: "start seq_start \<noteq> None" by (simp add: seq_start_def)
  have b: "persisted computed_stored \<noteq> None" by (simp add: computed_stored_def)
  from unsupported_constructs_rejected
         [of seq_start plain_host FBDialect_class computed_stored None] a b
  show ?thesis by simp
qed

subsection \<open>Rendering: column specifications\<close>



subsection \<open>Rendering on an uninitialized dialect\<close>

text \<open>
  C10. The class-level generation flag is \<open>True\<close>, so on a dialect that
  \<open>initialize\<close> has not touched an alias is rendered by the framework's generic method
  (the rendering with \<open>AS\<close>), dropping a sequence renders \<open>DROP SEQUENCE\<close>, and creating
  one renders \<open>CREATE SEQUENCE\<close> whenever it renders at all, never \<open>CREATE GENERATOR\<close>.
\<close>

theorem uninitialized_dialect_is_modern:
  "version_two FBDialect_class
   \<and> visit_alias h FBDialect_class alias asfrom = super_visit_alias h alias asfrom
   \<and> visit_drop_sequence h FBDialect_class elem = ''DROP SEQUENCE '' @ format_sequence h elem
   \<and> (start elem = None \<and> increment elem = None
        \<longrightarrow> visit_create_sequence h FBDialect_class elem
              = Inr (''CREATE SEQUENCE '' @ format_sequence h elem))
   \<and> visit_create_sequence h FBDialect_class elem \<noteq> Inr (''CREATE GENERATOR '' @ g)"
  by (simp add: FBDialect_class_def visit_alias_def visit_drop_sequence_def
        visit_create_sequence_def)

theorem uninitialized_dialect_is_modern_witness:
  "start seq_plain = None \<and> increment seq_plain = None
   \<and> visit_alias plain_host FBDialect_class alias_o True = ''orders AS o''
   \<and> visit_drop_sequence plain_host FBDialect_class seq_plain = ''DROP SEQUENCE gen_orders_id''
   \<and> visit_create_sequence plain_host FBDialect_class seq_plain
        = Inr ''CREATE SEQUENCE gen_orders_id''"
proof -
  have a: "start seq_plain = None \<and> increment seq_plain = None" by (simp add: seq_plain_def)
  from uninitialized_dialect_is_modern [of plain_host alias_o True seq_plain] a
  show ?thesis by (simp add: plain_host_def alias_o_def seq_plain_def)
qed

subsection \<open>Rendering: FIRST and SKIP\<close>

lemma get_select_precolumns_eq:
  "get_select_precolumns h select =
     super_get_select_precolumns h select
     @ (case limit_clause select of None \<Rightarrow> [] | Some l \<Rightarrow> ''FIRST ('' @ process h l @ '') '')
     @ (case offset_clause select of None \<Rightarrow> [] | Some off \<Rightarrow> ''SKIP ('' @ process h off @ '') '')"
  by (simp add: get_select_precolumns_def Let_def split: option.splits)

lemma limit_clause_empty: "limit_clause_text h select = []"
  by (simp add: limit_clause_text_def)

text \<open>
  C5 at a \<open>SELECT DISTINCT\<close> with limit 10 and offset 5, on a host whose base compiler
  renders the \<open>DISTINCT\<close> keyword as its pre-column text: the dialect appends
  \<open>FIRST (10) SKIP (5)\<close> after \<open>DISTINCT\<close>, so the keywords do not follow \<open>SELECT\<close>
  immediately. The trailing limit clause is empty.
\<close>

theorem first_skip_after_distinct:
  "get_select_precolumns plain_host select_distinct_page = ''DISTINCT FIRST (10) SKIP (5) ''
   \<and> limit_clause_text plain_host select_distinct_page = []"
  by (simp add: get_select_precolumns_def limit_clause_text_def plain_host_def
        select_distinct_page_def)

end
